theory Spec2Isabelle
  imports Complex_Main "HOL-Library.Sublist"
begin

section \<open>Python values\<close>

text \<open>
  A Python \<open>str\<close> is modelled as its UTF-8 byte sequence (\<^typ>\<open>string\<close>). Concatenation
  and the substring test \<open>a in b\<close> agree on code points and on UTF-8 bytes, and no
  definition below measures the length of a string.

  \<open>json\<close> is the type of the values that \<open>response.json()\<close> can return and that
  \<open>json=data\<close> sends: \<open>JNum r\<close> is a Python \<open>int\<close> or finite \<open>float\<close> of value
  \<open>r\<close>, \<open>JObj kvs\<close> a \<open>dict\<close> with string keys, looked up with \<^const>\<open>map_of\<close>.
\<close>

datatype json =
    JNull
  | JBool bool
  | JNum rat
  | JStr string
  | JArr "json list"
  | JObj "(string \<times> json) list"

text \<open>
  The exceptions the program can meet. \<open>CancelledError\<close> stands for the classes that
  derive from \<open>BaseException\<close> only; \<open>except Exception\<close> does not catch them.
\<close>

datatype py_exc =
    KeyError
  | IndexError
  | TypeError
  | AttributeError
  | JSONDecodeError
  | TransportError
  | CancelledError

fun is_Exception :: "py_exc \<Rightarrow> bool" where
  "is_Exception CancelledError = False"
| "is_Exception _ = True"

text \<open>Sequencing of computations that may raise.\<close>

fun and_then :: "py_exc + 'a \<Rightarrow> ('a \<Rightarrow> py_exc + 'b) \<Rightarrow> py_exc + 'b" where
  "and_then (Inl e) f = Inl e"
| "and_then (Inr x) f = f x"

text \<open>Truth value of a Python object in a condition.\<close>

fun truthy :: "json \<Rightarrow> bool" where
  "truthy JNull = False"
| "truthy (JBool b) = b"
| "truthy (JNum r) = (r \<noteq> 0)"
| "truthy (JStr s) = (s \<noteq> [])"
| "truthy (JArr xs) = (xs \<noteq> [])"
| "truthy (JObj kvs) = (kvs \<noteq> [])"

text \<open>\<open>k in x\<close> for a string \<open>k\<close>: key of a dict, element of a list, substring of a string.\<close>

fun py_in :: "string \<Rightarrow> json \<Rightarrow> py_exc + bool" where
  "py_in k (JObj kvs) = Inr (map_of kvs k \<noteq> None)"
| "py_in k (JArr xs) = Inr (JStr k \<in> set xs)"
| "py_in k (JStr s) = Inr (sublist k s)"
| "py_in k _ = Inl TypeError"

text \<open>\<open>x[k]\<close> for a string \<open>k\<close>.\<close>

fun getitem_key :: "json \<Rightarrow> string \<Rightarrow> py_exc + json" where
  "getitem_key (JObj kvs) k = (case map_of kvs k of None \<Rightarrow> Inl KeyError | Some v \<Rightarrow> Inr v)"
| "getitem_key _ k = Inl TypeError"

text \<open>Number of bytes of the UTF-8 code point that starts with the given byte.\<close>

definition utf8_width :: "char \<Rightarrow> nat" where
  "utf8_width c =
     (let n = of_char c :: nat in
      if n < 0xC0 then 1 else if n < 0xE0 then 2 else if n < 0xF0 then 3 else 4)"

text \<open>\<open>x[0]\<close>. The keys of a parsed JSON object are strings, so \<open>0\<close> is never one.\<close>

fun getitem_0 :: "json \<Rightarrow> py_exc + json" where
  "getitem_0 (JArr []) = Inl IndexError"
| "getitem_0 (JArr (x # xs)) = Inr x"
| "getitem_0 (JStr []) = Inl IndexError"
| "getitem_0 (JStr (c # cs)) = Inr (JStr (take (utf8_width c) (c # cs)))"
| "getitem_0 (JObj kvs) = Inl KeyError"
| "getitem_0 _ = Inl TypeError"

text \<open>\<open>xs[-n:]\<close> for a positive literal \<open>n\<close>: the whole list when it is no longer than \<open>n\<close>.\<close>

definition py_last :: "nat \<Rightarrow> 'a list \<Rightarrow> 'a list" where
  "py_last n xs = drop (length xs - n) xs"

text \<open>\<open>sep.join(xs)\<close>.\<close>

fun join :: "string \<Rightarrow> string list \<Rightarrow> string" where
  "join sep [] = []"
| "join sep [x] = x"
| "join sep (x # y # ys) = x @ sep @ join sep (y # ys)"

text \<open>\<open>str(n)\<close> for an integer: decimal digits, with a minus sign when negative.\<close>

fun str_nat :: "nat \<Rightarrow> string" where
  "str_nat n =
     (if n < 10 then [char_of (48 + n)]
      else str_nat (n div 10) @ [char_of (48 + n mod 10)])"

declare str_nat.simps [simp del]

definition str_int :: "int \<Rightarrow> string" where
  "str_int i = (if i < 0 then CHR ''-'' # str_nat (nat (- i)) else str_nat (nat i))"

text \<open>Reading a decimal numeral back, used to state that \<^const>\<open>str_nat\<close> loses nothing.\<close>

definition digits_value :: "string \<Rightarrow> nat" where
  "digits_value s = foldl (\<lambda>acc c. 10 * acc + (of_char c - 48)) 0 s"

section \<open>The generation client\<close>

text \<open>A Turn of the conversation history: the dict \<open>{"role": ..., "content": ...}\<close>.\<close>

record turn =
  role :: string
  content :: json

text \<open>
  What \<open>client.post\<close> can do: raise, or return a response with a status code, a raw body
  (\<open>response.text\<close>) and the outcome of \<open>response.json()\<close>.
\<close>

record http_response =
  status_code :: int
  body_text :: string
  json_body :: "py_exc + json"

datatype http_outcome =
    PostRaises py_exc
  | PostReturns http_response

text \<open>The UTF-8 bytes of the warning sign U+26A0 U+FE0F that opens the error texts.\<close>

definition warning_sign :: string where
  "warning_sign = [CHR 0xE2, CHR 0x9A, CHR 0xA0, CHR 0xEF, CHR 0xB8, CHR 0x8F]"

definition no_response_text :: string where
  "no_response_text = ''Sorry, I couldn'' @ [CHR 0x27] @ ''t generate a response.''"

definition api_error_text :: "int \<Rightarrow> string \<Rightarrow> string" where
  "api_error_text code body =
     warning_sign @ '' API Error (Status: '' @ str_int code @ ''): '' @ body"

definition request_error_text :: string where
  "request_error_text =
     warning_sign @ '' Sorry, I encountered an error. Please try again later.''"

text \<open>
  The provider message of the interface description, \<open>{role, parts: [{text}]}\<close>, used to
  state what the request holds.
\<close>

definition provider_message :: "string \<Rightarrow> json \<Rightarrow> json" where
  "provider_message r t =
     JObj [(''role'', JStr r), (''parts'', JArr [JObj [(''text'', t)]])]"

text \<open>The loop over \<open>chat_history\<close> (lines 47 to 51).\<close>

fun history_contents :: "turn list \<Rightarrow> json list" where
  "history_contents [] = []"
| "history_contents (msg # rest) =
     (if role msg = ''user''
      then JObj [(''role'', JStr ''user''), (''parts'', JArr [JObj [(''text'', content msg)]])]
      else JObj [(''role'', JStr ''model''), (''parts'', JArr [JObj [(''text'', content msg)]])])
     # history_contents rest"

text \<open>
  The request body \<open>data\<close> (lines 41 to 62); \<open>None\<close> is the default argument. The
  prompt is whatever object the caller passes, a \<open>str\<close> in every call of this program.
\<close>

definition request_data :: "json \<Rightarrow> turn list option \<Rightarrow> json" where
  "request_data prompt chat_history =
     (let chat_history = (case chat_history of None \<Rightarrow> [] | Some h \<Rightarrow> h);
          contents = history_contents chat_history
                     @ [JObj [(''role'', JStr ''user''),
                              (''parts'', JArr [JObj [(''text'', prompt)]])]]
      in JObj [(''contents'', JArr contents),
               (''generationConfig'',
                  JObj [(''temperature'', JNum (7 / 10)),
                        (''maxOutputTokens'', JNum 500)])])"

text \<open>The condition \<open>'candidates' in result and result['candidates']\<close>.\<close>

definition has_candidates :: "json \<Rightarrow> py_exc + bool" where
  "has_candidates result =
     and_then (py_in ''candidates'' result) (\<lambda>present.
       if present
       then and_then (getitem_key result ''candidates'') (\<lambda>c. Inr (truthy c))
       else Inr False)"

text \<open>\<open>result['candidates'][0]['content']['parts'][0]['text']\<close>.\<close>

definition first_candidate_text :: "json \<Rightarrow> py_exc + json" where
  "first_candidate_text result =
     and_then (getitem_key result ''candidates'') (\<lambda>cands.
     and_then (getitem_0 cands) (\<lambda>cand.
     and_then (getitem_key cand ''content'') (\<lambda>cont.
     and_then (getitem_key cont ''parts'') (\<lambda>parts.
     and_then (getitem_0 parts) (\<lambda>part.
       getitem_key part ''text'')))))"

text \<open>
  The body of the \<open>try\<close> block (lines 65 to 80). \<open>post\<close> is the endpoint as the client
  reaches it, with the URL, the key, the headers and the timeout fixed: from the request
  body to what the call does.
\<close>

definition try_block :: "(json \<Rightarrow> http_outcome) \<Rightarrow> json \<Rightarrow> py_exc + json" where
  "try_block post data =
     (case post data of
        PostRaises e \<Rightarrow> Inl e
      | PostReturns response \<Rightarrow>
          if status_code response = 200
          then and_then (json_body response) (\<lambda>result.
               and_then (has_candidates result) (\<lambda>found.
                 if found then first_candidate_text result
                 else Inr (JStr no_response_text)))
          else Inr (JStr (api_error_text (status_code response) (body_text response))))"

text \<open>
  \<open>generate_gemini_response\<close>: \<open>Inr\<close> is the returned value, \<open>Inl\<close> an exception that
  leaves the function.
\<close>

definition generate_gemini_response ::
  "(json \<Rightarrow> http_outcome) \<Rightarrow> json \<Rightarrow> turn list option \<Rightarrow> py_exc + json" where
  "generate_gemini_response post prompt chat_history =
     (case try_block post (request_data prompt chat_history) of
        Inr v \<Rightarrow> Inr v
      | Inl e \<Rightarrow> if is_Exception e then Inr (JStr request_error_text) else Inl e)"

section \<open>The analysis prompt\<close>

text \<open>The prompt of \<open>analyze_conversation\<close> (lines 117 to 126).\<close>

definition analysis_prompt :: "string list \<Rightarrow> string" where
  "analysis_prompt messages =
     ''You are an unbiased, emotionally intelligent AI mediator. ''
     @ ''Given these group messages, provide:\<newline>''
     @ ''1. A short, neutral summary\<newline>''
     @ ''2. An unbiased suggestion\<newline>''
     @ ''Format strictly as:\<newline>''
     @ ''Summary: <summary>\<newline>''
     @ ''Suggestion: <suggestion>\<newline>''
     @ ''Messages:\<newline>'' @ join ''\<newline>'' (py_last 10 messages)"

definition analyze_conversation ::
  "(json \<Rightarrow> http_outcome) \<Rightarrow> string list \<Rightarrow> py_exc + json" where
  "analyze_conversation post messages =
     generate_gemini_response post (JStr (analysis_prompt messages)) None"

section \<open>Updates, session data and the platform\<close>

text \<open>
  The fields of an update that the handlers read. \<open>msg_text\<close> is \<open>message.text\<close>,
  \<open>from_user\<close> is \<open>None\<close> for a message without a sender, \<open>effective_chat\<close> holds the
  chat id.
\<close>

record tg_user =
  first_name :: string

record tg_message =
  msg_text :: "string option"
  from_user :: "tg_user option"
  message_id :: int

record tg_update =
  message :: "tg_message option"
  effective_message :: "tg_message option"
  effective_chat :: "int option"

text \<open>
  \<open>context.user_data\<close> and \<open>context.chat_data\<close>: dicts from keys to the lists this
  program stores in them.
\<close>

type_synonym user_data = "string \<rightharpoonup> turn list"

type_synonym chat_data = "string \<rightharpoonup> string list"

text \<open>
  What lies outside the program during one handler call: whether
  \<open>send_chat_action\<close> raises, whether \<open>reply_text\<close> raises on a given text, the
  generation endpoint, and Python's \<open>str.lower\<close>.
\<close>

record platform =
  send_chat_action :: "py_exc option"
  reply_text :: "json \<Rightarrow> py_exc option"
  http_post :: "json \<Rightarrow> http_outcome"
  str_lower :: "string \<Rightarrow> string"

text \<open>
  What a handler call leaves behind: the session data, the texts passed to
  \<open>reply_text\<close> in order, and the value returned (\<open>Inr\<close>, with \<open>None\<close> for Python's
  \<open>None\<close>) or the exception raised (\<open>Inl\<close>).
\<close>

record 'd handled =
  data :: 'd
  replies :: "json list"
  outcome :: "py_exc + int option"

definition CHATTING :: int where
  "CHATTING = 1"

text \<open>\<open>ConversationHandler.END\<close>, a constant of the messaging library.\<close>

definition END :: int where
  "END = - 1"

text \<open>\<open>raise e\<close> with session data \<open>d\<close>, after the replies \<open>sent\<close>.\<close>

definition raises :: "py_exc \<Rightarrow> 'd \<Rightarrow> json list \<Rightarrow> 'd handled" where
  "raises e d sent = \<lparr>data = d, replies = sent, outcome = Inl e\<rparr>"

text \<open>\<open>return ret\<close> with session data \<open>d\<close>, after the replies \<open>sent\<close>.\<close>

definition returns :: "int option \<Rightarrow> 'd \<Rightarrow> json list \<Rightarrow> 'd handled" where
  "returns ret d sent = \<lparr>data = d, replies = sent, outcome = Inr ret\<rparr>"

text \<open>\<open>await ....reply_text(txt)\<close> followed by \<open>return ret\<close>.\<close>

definition reply_and_return ::
  "platform \<Rightarrow> json \<Rightarrow> int option \<Rightarrow> 'd \<Rightarrow> json list \<Rightarrow> 'd handled" where
  "reply_and_return env txt ret d sent =
     (case reply_text env txt of
        Some e \<Rightarrow> raises e d (sent @ [txt])
      | None \<Rightarrow> returns ret d (sent @ [txt]))"

text \<open>A \<open>str\<close> or \<open>None\<close> as a Python object.\<close>

definition str_or_none :: "string option \<Rightarrow> json" where
  "str_or_none s = (case s of None \<Rightarrow> JNull | Some t \<Rightarrow> JStr t)"

section \<open>The private chat\<close>

definition chat_started_text :: string where
  "chat_started_text =
     [CHR 0xF0, CHR 0x9F, CHR 0x92, CHR 0xAC]
     @ '' You'' @ [CHR 0x27] @ ''re now chatting with Gemini Flash AI. Send me any message!\<newline>''
     @ ''Type /stop to end the chat.''"

definition chat_ended_text :: string where
  "chat_ended_text =
     [CHR 0xF0, CHR 0x9F, CHR 0x91, CHR 0x8D] @ '' Chat ended. Start again with /chat!''"

definition handler_error_text :: string where
  "handler_error_text = warning_sign @ '' An error occurred. Please try again.''"

definition chat_with_ai :: "platform \<Rightarrow> tg_update \<Rightarrow> user_data \<Rightarrow> user_data handled" where
  "chat_with_ai env update user_data =
     (let user_data = user_data(''chat_history'' \<mapsto> []) in
      case message update of
        None \<Rightarrow> raises AttributeError user_data []
      | Some m \<Rightarrow> reply_and_return env (JStr chat_started_text) (Some CHATTING) user_data [])"

definition stop_chat :: "platform \<Rightarrow> tg_update \<Rightarrow> user_data \<Rightarrow> user_data handled" where
  "stop_chat env update user_data =
     (let user_data = (if ''chat_history'' \<in> dom user_data
                       then user_data(''chat_history'' := None) else user_data) in
      case message update of
        None \<Rightarrow> raises AttributeError user_data []
      | Some m \<Rightarrow> reply_and_return env (JStr chat_ended_text) (Some END) user_data [])"

text \<open>\<open>context.user_data.get("chat_history", [])\<close>.\<close>

definition get_chat_history :: "user_data \<Rightarrow> turn list" where
  "get_chat_history user_data =
     (case user_data ''chat_history'' of None \<Rightarrow> [] | Some h \<Rightarrow> h)"

text \<open>
  The body of the \<open>try\<close> block of \<open>handle_ai_response\<close> (lines 153 to 173). The
  argument \<open>update.effective_chat.id\<close> is read before \<open>send_chat_action\<close> is called, and
  raises when the update has no chat.
\<close>

definition ai_response_try :: "platform \<Rightarrow> tg_update \<Rightarrow> user_data \<Rightarrow> user_data handled" where
  "ai_response_try env update user_data =
     (case message update of
        None \<Rightarrow> raises AttributeError user_data []
      | Some m \<Rightarrow>
          let user_message = str_or_none (msg_text m) in
          case effective_chat update of
            None \<Rightarrow> raises AttributeError user_data []
          | Some chat_id \<Rightarrow>
              (case send_chat_action env of
                 Some e \<Rightarrow> raises e user_data []
               | None \<Rightarrow>
                   let chat_history = get_chat_history user_data in
                   case generate_gemini_response (http_post env) user_message
                          (Some chat_history) of
                     Inl e \<Rightarrow> raises e user_data []
                   | Inr response \<Rightarrow>
                       let chat_history = chat_history
                             @ [\<lparr>role = ''user'', content = user_message\<rparr>]
                             @ [\<lparr>role = ''model'', content = response\<rparr>];
                           user_data = user_data(''chat_history'' \<mapsto> py_last 6 chat_history)
                       in reply_and_return env response (Some CHATTING) user_data []))"

text \<open>
  \<open>handle_ai_response\<close>: the \<open>try\<close> block under \<open>except Exception\<close>, whose handler
  replies with the error text and returns \<open>CHATTING\<close>.
\<close>

definition handle_ai_response ::
  "platform \<Rightarrow> tg_update \<Rightarrow> user_data \<Rightarrow> user_data handled" where
  "handle_ai_response env update user_data =
     (let r = ai_response_try env update user_data in
      case outcome r of
        Inr v \<Rightarrow> r
      | Inl e \<Rightarrow>
          if is_Exception e
          then (case message update of
                  None \<Rightarrow> raises AttributeError (data r) (replies r)
                | Some m \<Rightarrow>
                    reply_and_return env (JStr handler_error_text) (Some CHATTING)
                      (data r) (replies r))
          else r)"

section \<open>The group chat\<close>

text \<open>\<open>context.chat_data.get("recent_msgs", [])\<close>.\<close>

definition get_recent_msgs :: "chat_data \<Rightarrow> string list" where
  "get_recent_msgs chat_data =
     (case chat_data ''recent_msgs'' of None \<Rightarrow> [] | Some h \<Rightarrow> h)"

text \<open>The line \<open>f"{message.from_user.first_name}: {text}"\<close>.\<close>

definition sender_line :: "tg_user \<Rightarrow> string \<Rightarrow> string" where
  "sender_line u t = first_name u @ '': '' @ t"

text \<open>
  \<open>cache_messages\<close> has no \<open>try\<close>: a message without a sender raises after
  \<open>setdefault\<close> has created the key.
\<close>

definition cache_messages :: "tg_update \<Rightarrow> chat_data \<Rightarrow> chat_data handled" where
  "cache_messages update chat_data =
     (case effective_message update of
        None \<Rightarrow> returns None chat_data []
      | Some m \<Rightarrow>
          (case msg_text m of
             None \<Rightarrow> returns None chat_data []
           | Some t \<Rightarrow>
               if t = [] then returns None chat_data []
               else
                 let chat_data = (if ''recent_msgs'' \<in> dom chat_data then chat_data
                                  else chat_data(''recent_msgs'' \<mapsto> []));
                     chat_history = get_recent_msgs chat_data
                 in case from_user m of
                      None \<Rightarrow> raises AttributeError chat_data []
                    | Some u \<Rightarrow>
                        let chat_history = chat_history @ [sender_line u t] in
                        returns None
                          (chat_data(''recent_msgs'' \<mapsto> py_last 10 chat_history)) []))"




section \<open>Sequences of handler calls\<close>

text \<open>The private chat: \<open>handle_ai_response\<close> on each event in turn.\<close>

fun private_session :: "user_data \<Rightarrow> (platform \<times> tg_update) list \<Rightarrow> user_data" where
  "private_session user_data [] = user_data"
| "private_session user_data ((env, update) # rest) =
     private_session (data (handle_ai_response env update user_data)) rest"

text \<open>
  The Turns of one exchange as the two parties see them: the text the user sent and the
  first text the handler replied with.
\<close>

definition exchange_turns :: "tg_update \<Rightarrow> user_data handled \<Rightarrow> turn list" where
  "exchange_turns update r =
     (case (message update, replies r) of
        (Some m, reply # _) \<Rightarrow>
          [\<lparr>role = ''user'', content = str_or_none (msg_text m)\<rparr>,
           \<lparr>role = ''model'', content = reply\<rparr>]
      | _ \<Rightarrow> [])"

fun session_turns :: "user_data \<Rightarrow> (platform \<times> tg_update) list \<Rightarrow> turn list" where
  "session_turns user_data [] = []"
| "session_turns user_data ((env, update) # rest) =
     (let r = handle_ai_response env update user_data
      in exchange_turns update r @ session_turns (data r) rest)"

text \<open>
  An event that runs as an exchange: the update carries a message and a chat, the typing
  action goes through, and nothing outside \<open>Exception\<close> comes out of the generation call.
\<close>

definition exchange_ok :: "platform \<Rightarrow> tg_update \<Rightarrow> bool" where
  "exchange_ok env update \<longleftrightarrow>
     message update \<noteq> None \<and> effective_chat update \<noteq> None
     \<and> send_chat_action env = None
     \<and> (\<forall>req e. try_block (http_post env) req = Inl e \<longrightarrow> is_Exception e)"

text \<open>Turns in user/model pairs, a user Turn first.\<close>

fun paired :: "turn list \<Rightarrow> bool" where
  "paired [] = True"
| "paired [t] = False"
| "paired (u # m # rest) = (role u = ''user'' \<and> role m = ''model'' \<and> paired rest)"

text \<open>The group chat: \<open>cache_messages\<close> on each update in turn.\<close>

fun group_session :: "chat_data \<Rightarrow> tg_update list \<Rightarrow> chat_data" where
  "group_session chat_data [] = chat_data"
| "group_session chat_data (update # rest) =
     group_session (data (cache_messages update chat_data)) rest"

text \<open>The sender and the text of a group text message, when the update is one.\<close>

definition group_text :: "tg_update \<Rightarrow> (tg_user \<times> string) option" where
  "group_text update =
     (case effective_message update of
        None \<Rightarrow> None
      | Some m \<Rightarrow>
          (case (from_user m, msg_text m) of
             (Some u, Some t) \<Rightarrow> if t = [] then None else Some (u, t)
           | _ \<Rightarrow> None))"

definition appended_line :: "tg_update \<Rightarrow> string" where
  "appended_line update =
     (case group_text update of None \<Rightarrow> [] | Some (u, t) \<Rightarrow> sender_line u t)"

section \<open>Example inputs\<close>

text \<open>
  A platform on which every call goes through and the endpoint answers 200 with an
  empty list of candidates, and an update that carries one text message.
\<close>

definition quiet_platform :: platform where
  "quiet_platform =
     \<lparr>send_chat_action = None,
      reply_text = (\<lambda>_. None),
      http_post = (\<lambda>_. PostReturns \<lparr>status_code = 200, body_text = ''{}'',
                                      json_body = Inr (JObj [(''candidates'', JArr [])])\<rparr>),
      str_lower = (\<lambda>s. s)\<rparr>"

definition text_update :: "string \<Rightarrow> string \<Rightarrow> tg_update" where
  "text_update sender t =
     (let m = \<lparr>msg_text = Some t, from_user = Some \<lparr>first_name = sender\<rparr>, message_id = 1\<rparr>
      in \<lparr>message = Some m, effective_message = Some m, effective_chat = Some 7\<rparr>)"

section \<open>Properties of the generation client\<close>

lemma str_nat_digits: "digits_value (str_nat n) = n"
proof (induction n rule: str_nat.induct)
  case (1 n)
  show ?case
  proof (cases "n < 10")
    case True
    then show ?thesis by (subst str_nat.simps) (simp add: digits_value_def)
  next
    case False
    then have "digits_value (str_nat (n div 10)) = n div 10" using 1 by simp
    then show ?thesis using False
      by (subst str_nat.simps) (simp add: digits_value_def)
  qed
qed

lemma str_int_digits: "0 \<le> i \<Longrightarrow> int (digits_value (str_int i)) = i"
  by (simp add: str_int_def str_nat_digits)

lemma try_block_response:
  "post req = PostReturns response \<Longrightarrow>
   try_block post req =
     (if status_code response = 200
      then and_then (json_body response) (\<lambda>result.
           and_then (has_candidates result) (\<lambda>found.
             if found then first_candidate_text result
             else Inr (JStr no_response_text)))
      else Inr (JStr (api_error_text (status_code response) (body_text response))))"
  by (simp add: try_block_def)

lemma try_block_raises_iff:
  "try_block post req = Inl e \<longleftrightarrow>
     post req = PostRaises e
     \<or> (\<exists>response. post req = PostReturns response \<and> status_code response = 200
           \<and> (json_body response = Inl e
                \<or> (\<exists>result. json_body response = Inr result
                      \<and> (has_candidates result = Inl e
                           \<or> has_candidates result = Inr True
                              \<and> first_candidate_text result = Inl e))))"
proof (cases "post req")
  case (PostRaises x)
  then show ?thesis by (simp add: try_block_def)
next
  case (PostReturns response)
  show ?thesis
  proof (cases "json_body response")
    case (Inl x)
    then show ?thesis using PostReturns by (auto simp: try_block_def)
  next
    case (Inr result)
    then show ?thesis using PostReturns
      by (cases "has_candidates result") (auto simp: try_block_def)
  qed
qed


lemma generate_returns:
  assumes "\<forall>req e. try_block post req = Inl e \<longrightarrow> is_Exception e"
  shows "\<exists>v. generate_gemini_response post prompt chat_history = Inr v"
  using assms by (auto simp: generate_gemini_response_def split: sum.splits)

text \<open>
  C3. When the endpoint answers with a status code other than 200, the status the code
  tests for, \<open>generate_gemini_response\<close> returns the error text, which holds the decimal
  numeral of the status code and the raw body as contiguous parts. For a status code that
  is not negative the numeral reads back as the code itself.
\<close>

theorem api_error_relays_status_and_body:
  assumes "post (request_data prompt chat_history) = PostReturns response"
    and "status_code response \<noteq> 200"
  shows "generate_gemini_response post prompt chat_history =
           Inr (JStr (api_error_text (status_code response) (body_text response)))
         \<and> sublist (str_int (status_code response))
              (api_error_text (status_code response) (body_text response))
         \<and> sublist (body_text response)
              (api_error_text (status_code response) (body_text response))
         \<and> (0 \<le> status_code response \<longrightarrow>
              int (digits_value (str_int (status_code response))) = status_code response)"
proof -
  have "try_block post (request_data prompt chat_history) =
          Inr (JStr (api_error_text (status_code response) (body_text response)))"
    using assms by (simp add: try_block_response)
  then have g: "generate_gemini_response post prompt chat_history =
          Inr (JStr (api_error_text (status_code response) (body_text response)))"
    by (simp add: generate_gemini_response_def)
  have s1: "sublist (str_int (status_code response))
              (api_error_text (status_code response) (body_text response))"
    unfolding api_error_text_def sublist_def by (metis append.assoc)
  have s2: "sublist (body_text response)
              (api_error_text (status_code response) (body_text response))"
    unfolding api_error_text_def sublist_def by (metis append.assoc append_Nil2)
  show ?thesis using g s1 s2 str_int_digits by blast
qed

theorem api_error_relays_status_and_body_witness:
  "generate_gemini_response
     (\<lambda>_. PostReturns \<lparr>status_code = 503, body_text = ''overloaded'',
                        json_body = Inl JSONDecodeError\<rparr>)
     (JStr ''hi'') None
   = Inr (JStr (warning_sign @ '' API Error (Status: 503): overloaded''))
   \<and> sublist ''503'' (warning_sign @ '' API Error (Status: 503): overloaded'')
   \<and> sublist ''overloaded'' (warning_sign @ '' API Error (Status: 503): overloaded'')"
proof -
  have e: "api_error_text 503 ''overloaded'' =
             warning_sign @ '' API Error (Status: 503): overloaded''"
    by code_simp
  have s: "str_int 503 = ''503''" by code_simp
  show ?thesis
    using api_error_relays_status_and_body
      [of "\<lambda>_. PostReturns \<lparr>status_code = 503, body_text = ''overloaded'',
                               json_body = Inl JSONDecodeError\<rparr>"
          "JStr ''hi''" None
          "\<lparr>status_code = 503, body_text = ''overloaded'', json_body = Inl JSONDecodeError\<rparr>"]
    by (simp add: e s)
qed

text \<open>
  C4. When the endpoint answers with status 200 and a JSON object that has no
  \<open>candidates\<close> field, or an empty list of candidates, \<open>generate_gemini_response\<close>
  returns the fixed placeholder text: a returned value, not an exception, and not the
  empty text.
\<close>

theorem no_candidates_gives_placeholder:
  assumes "post (request_data prompt chat_history) = PostReturns response"
    and "status_code response = 200"
    and "json_body response = Inr (JObj kvs)"
    and "map_of kvs ''candidates'' = None \<or> map_of kvs ''candidates'' = Some (JArr [])"
  shows "generate_gemini_response post prompt chat_history = Inr (JStr no_response_text)
         \<and> no_response_text \<noteq> []"
proof -
  have "has_candidates (JObj kvs) = Inr False"
    using assms(4) by (auto simp: has_candidates_def)
  then have "try_block post (request_data prompt chat_history) = Inr (JStr no_response_text)"
    using assms(1-3) by (simp add: try_block_response)
  then show ?thesis
    by (simp add: generate_gemini_response_def no_response_text_def)
qed

theorem no_candidates_gives_placeholder_witness:
  "generate_gemini_response
     (\<lambda>_. PostReturns \<lparr>status_code = 200, body_text = ''{}'',
                        json_body = Inr (JObj [(''candidates'', JArr [])])\<rparr>)
     (JStr ''hi'') None
   = Inr (JStr (''Sorry, I couldn'' @ [CHR 0x27] @ ''t generate a response.''))"
  using no_candidates_gives_placeholder
    [of "\<lambda>_. PostReturns \<lparr>status_code = 200, body_text = ''{}'',
                             json_body = Inr (JObj [(''candidates'', JArr [])])\<rparr>"
        "JStr ''hi''" None
        "\<lparr>status_code = 200, body_text = ''{}'',
          json_body = Inr (JObj [(''candidates'', JArr [])])\<rparr>"
        "[(''candidates'', JArr [])]"]
  by (simp add: no_response_text_def)

text \<open>
  C5. When the endpoint answers with status 200 and a JSON object of the shape
  \<open>{candidates: [{content: {parts: [{text}]}}, ...]}\<close> with at least one candidate,
  \<open>generate_gemini_response\<close> returns the text of the first part of the first candidate,
  the very value found there.
\<close>

theorem first_candidate_text_returned:
  assumes "post (request_data prompt chat_history) = PostReturns response"
    and "status_code response = 200"
    and "json_body response = Inr (JObj kvs)"
    and "map_of kvs ''candidates'' = Some (JArr (JObj cand # others))"
    and "map_of cand ''content'' = Some (JObj cont)"
    and "map_of cont ''parts'' = Some (JArr (JObj part # parts))"
    and "map_of part ''text'' = Some t"
  shows "generate_gemini_response post prompt chat_history = Inr t"
proof -
  have h: "has_candidates (JObj kvs) = Inr True"
    using assms(4) by (simp add: has_candidates_def)
  have f: "first_candidate_text (JObj kvs) = Inr t"
    using assms(4-7) by (simp add: first_candidate_text_def)
  have "try_block post (request_data prompt chat_history) = Inr t"
    using assms(1-3) h f by (simp add: try_block_response)
  then show ?thesis by (simp add: generate_gemini_response_def)
qed

theorem first_candidate_text_returned_witness:
  "generate_gemini_response
     (\<lambda>_. PostReturns \<lparr>status_code = 200, body_text = ''{}'',
        json_body = Inr (JObj [(''candidates'',
          JArr [JObj [(''content'',
                  JObj [(''parts'', JArr [JObj [(''text'', JStr ''  Hi there \<newline>'')]])])],
                JObj [(''content'',
                  JObj [(''parts'', JArr [JObj [(''text'', JStr ''second'')]])])]])])\<rparr>)
     (JStr ''hi'') None
   = Inr (JStr ''  Hi there \<newline>'')"
  using first_candidate_text_returned
    [of "\<lambda>_. PostReturns \<lparr>status_code = 200, body_text = ''{}'',
        json_body = Inr (JObj [(''candidates'',
          JArr [JObj [(''content'',
                  JObj [(''parts'', JArr [JObj [(''text'', JStr ''  Hi there \<newline>'')]])])],
                JObj [(''content'',
                  JObj [(''parts'', JArr [JObj [(''text'', JStr ''second'')]])])]])])\<rparr>"
        "JStr ''hi''" None
        "\<lparr>status_code = 200, body_text = ''{}'',
        json_body = Inr (JObj [(''candidates'',
          JArr [JObj [(''content'',
                  JObj [(''parts'', JArr [JObj [(''text'', JStr ''  Hi there \<newline>'')]])])],
                JObj [(''content'',
                  JObj [(''parts'', JArr [JObj [(''text'', JStr ''second'')]])])]])])\<rparr>"
        "[(''candidates'',
          JArr [JObj [(''content'',
                  JObj [(''parts'', JArr [JObj [(''text'', JStr ''  Hi there \<newline>'')]])])],
                JObj [(''content'',
                  JObj [(''parts'', JArr [JObj [(''text'', JStr ''second'')]])])]])]"
        "[(''content'', JObj [(''parts'', JArr [JObj [(''text'', JStr ''  Hi there \<newline>'')]])])]"
        "[JObj [(''content'', JObj [(''parts'', JArr [JObj [(''text'', JStr ''second'')]])])]]"
        "[(''parts'', JArr [JObj [(''text'', JStr ''  Hi there \<newline>'')]])]"
        "[(''text'', JStr ''  Hi there \<newline>'')]" "[]" "JStr ''  Hi there \<newline>''"]
  by simp

text \<open>
  C6. When an exception of class \<open>Exception\<close> is raised inside the \<open>try\<close> block, by the
  call to the endpoint (transport failure, timeout), by the parsing of the body or by the
  reading of the parsed body, \<open>generate_gemini_response\<close> returns the fixed apology text,
  and no exception of class \<open>Exception\<close> leaves the function.
\<close>

theorem exception_gives_apology:
  assumes "is_Exception e"
    and "post (request_data prompt chat_history) = PostRaises e
         \<or> (\<exists>response. post (request_data prompt chat_history) = PostReturns response
               \<and> status_code response = 200
               \<and> (json_body response = Inl e
                    \<or> (\<exists>result. json_body response = Inr result
                          \<and> (has_candidates result = Inl e
                               \<or> has_candidates result = Inr True
                                  \<and> first_candidate_text result = Inl e))))"
  shows "generate_gemini_response post prompt chat_history = Inr (JStr request_error_text)
         \<and> (\<forall>e'. is_Exception e' \<longrightarrow>
               generate_gemini_response post prompt chat_history \<noteq> Inl e')"
proof -
  have "try_block post (request_data prompt chat_history) = Inl e"
    using assms(2) by (simp only: try_block_raises_iff)
  then show ?thesis
    using assms(1) by (simp add: generate_gemini_response_def)
qed

theorem exception_gives_apology_witness:
  "is_Exception TransportError
   \<and> generate_gemini_response (\<lambda>_. PostRaises TransportError) (JStr ''hi'') None
       = Inr (JStr (warning_sign @ '' Sorry, I encountered an error. Please try again later.''))"
  using exception_gives_apology [of TransportError "\<lambda>_. PostRaises TransportError" "JStr ''hi''" None]
  by (simp add: request_error_text_def)

text \<open>
  C7. For a history of Turns (each role \<open>user\<close> or \<open>model\<close>) the request body holds, under
  \<open>contents\<close>, one provider message per Turn with the Turn's own role and text, in the
  order of the history, followed by the prompt as a last message of role \<open>user\<close>; and,
  under \<open>generationConfig\<close>, temperature 0.7 and maxOutputTokens 500.
\<close>

theorem request_shaping:
  assumes "\<forall>t \<in> set history. role t = ''user'' \<or> role t = ''model''"
  shows "request_data prompt (Some history) =
           JObj [(''contents'',
                    JArr (map (\<lambda>t. provider_message (role t) (content t)) history
                          @ [provider_message ''user'' prompt])),
                 (''generationConfig'',
                    JObj [(''temperature'', JNum (7 / 10)),
                          (''maxOutputTokens'', JNum 500)])]"
proof -
  have "history_contents history = map (\<lambda>t. provider_message (role t) (content t)) history"
    using assms by (induction history) (auto simp: provider_message_def)
  then show ?thesis by (simp add: request_data_def provider_message_def)
qed

theorem request_shaping_witness:
  "request_data (JStr ''and now?'')
     (Some [\<lparr>role = ''user'', content = JStr ''hello''\<rparr>,
            \<lparr>role = ''model'', content = JStr ''hi''\<rparr>]) =
   JObj [(''contents'',
            JArr [JObj [(''role'', JStr ''user''),
                        (''parts'', JArr [JObj [(''text'', JStr ''hello'')]])],
                  JObj [(''role'', JStr ''model''),
                        (''parts'', JArr [JObj [(''text'', JStr ''hi'')]])],
                  JObj [(''role'', JStr ''user''),
                        (''parts'', JArr [JObj [(''text'', JStr ''and now?'')]])]]),
         (''generationConfig'',
            JObj [(''temperature'', JNum (7 / 10)), (''maxOutputTokens'', JNum 500)])]"
  using request_shaping
    [of "[\<lparr>role = ''user'', content = JStr ''hello''\<rparr>, \<lparr>role = ''model'', content = JStr ''hi''\<rparr>]"
        "JStr ''and now?''"]
  by (simp add: provider_message_def)

section \<open>Properties of the windows\<close>

lemma py_last_length: "length (py_last n xs) = min (length xs) n"
  by (simp add: py_last_def)

lemma py_last_short: "length xs \<le> n \<Longrightarrow> py_last n xs = xs"
  by (simp add: py_last_def)

lemma py_last_suffix: "suffix (py_last n xs) xs"
  by (simp add: py_last_def suffix_drop)

lemma py_last_append: "py_last n (py_last n xs @ ys) = py_last n (xs @ ys)"
proof (cases "length xs \<le> n")
  case True
  then show ?thesis by (simp add: py_last_short)
next
  case False
  define a where "a = length xs - n"
  have "length (drop a xs @ ys) - n = length ys"
    using False by (simp add: a_def)
  then have l: "py_last n (py_last n xs @ ys) = drop (length ys) (drop a xs @ ys)"
    by (simp only: py_last_def a_def)
  have "length (xs @ ys) - n = length ys + a"
    using False by (simp add: a_def)
  then have "py_last n (xs @ ys) = drop (length ys + a) (xs @ ys)"
    by (simp only: py_last_def)
  also have "\<dots> = drop (length ys) (drop a (xs @ ys))"
    by (simp only: drop_drop)
  also have "drop a (xs @ ys) = drop a xs @ ys"
    by (simp add: a_def)
  finally show ?thesis using l by simp
qed


lemma data_reply_and_return: "data (reply_and_return env txt ret d sent) = d"
  by (simp add: reply_and_return_def raises_def returns_def split: option.splits)

lemma replies_reply_and_return: "replies (reply_and_return env txt ret d sent) = sent @ [txt]"
  by (simp add: reply_and_return_def raises_def returns_def split: option.splits)

lemma outcome_reply_and_return:
  "outcome (reply_and_return env txt ret d sent) =
     (case reply_text env txt of Some e \<Rightarrow> Inl e | None \<Rightarrow> Inr ret)"
  by (simp add: reply_and_return_def raises_def returns_def split: option.splits)

lemma paired_append: "paired xs \<Longrightarrow> paired ys \<Longrightarrow> paired (xs @ ys)"
  by (induction xs rule: paired.induct) simp_all

lemma paired_drop: "paired xs \<Longrightarrow> paired (drop (2 * j) xs)"
proof (induction j arbitrary: xs)
  case 0
  then show ?case by simp
next
  case (Suc j)
  show ?case
  proof (cases xs rule: paired.cases)
    case 1
    then show ?thesis by simp
  next
    case (2 t)
    then show ?thesis using Suc.prems by simp
  next
    case (3 u m rest)
    then show ?thesis using Suc by simp
  qed
qed

lemma paired_hd: "paired xs \<Longrightarrow> xs \<noteq> [] \<Longrightarrow> role (hd xs) = ''user''"
  by (cases xs rule: paired.cases) simp_all

section \<open>Properties of the private chat\<close>

lemma ai_response_try_ok:
  assumes "message update = Some m" and "effective_chat update = Some c"
    and "send_chat_action env = None"
    and "generate_gemini_response (http_post env) (str_or_none (msg_text m))
           (Some (get_chat_history user_data)) = Inr response"
  shows "ai_response_try env update user_data =
           reply_and_return env response (Some CHATTING)
             (user_data(''chat_history'' \<mapsto>
                py_last 6 (get_chat_history user_data
                  @ [\<lparr>role = ''user'', content = str_or_none (msg_text m)\<rparr>,
                     \<lparr>role = ''model'', content = response\<rparr>])))
             []"
  using assms by (simp add: ai_response_try_def)

lemma handle_ai_response_ok:
  assumes "message update = Some m" and "effective_chat update = Some c"
    and "send_chat_action env = None"
    and "generate_gemini_response (http_post env) (str_or_none (msg_text m))
           (Some (get_chat_history user_data)) = Inr response"
  shows "data (handle_ai_response env update user_data) =
           user_data(''chat_history'' \<mapsto>
             py_last 6 (get_chat_history user_data
               @ [\<lparr>role = ''user'', content = str_or_none (msg_text m)\<rparr>,
                  \<lparr>role = ''model'', content = response\<rparr>]))"
    and "\<exists>later. replies (handle_ai_response env update user_data) = response # later"
  using assms(1)
  by (auto simp: handle_ai_response_def ai_response_try_ok [OF assms] Let_def
        data_reply_and_return replies_reply_and_return outcome_reply_and_return
      split: sum.splits option.splits)

lemma exchange_step:
  assumes "exchange_ok env update"
  shows "get_chat_history (data (handle_ai_response env update user_data)) =
           py_last 6 (get_chat_history user_data
             @ exchange_turns update (handle_ai_response env update user_data))
         \<and> length (exchange_turns update (handle_ai_response env update user_data)) = 2
         \<and> paired (exchange_turns update (handle_ai_response env update user_data))"
proof -
  from assms obtain m where m: "message update = Some m"
    by (auto simp: exchange_ok_def)
  from assms obtain c where c: "effective_chat update = Some c"
    by (auto simp: exchange_ok_def)
  from assms have s: "send_chat_action env = None"
    by (simp add: exchange_ok_def)
  from assms have "\<forall>req e. try_block (http_post env) req = Inl e \<longrightarrow> is_Exception e"
    by (simp add: exchange_ok_def)
  then obtain response where
    g: "generate_gemini_response (http_post env) (str_or_none (msg_text m))
          (Some (get_chat_history user_data)) = Inr response"
    using generate_returns by blast
  from handle_ai_response_ok(2) [OF m c s g] obtain later where
    r: "replies (handle_ai_response env update user_data) = response # later" by blast
  have t: "exchange_turns update (handle_ai_response env update user_data) =
             [\<lparr>role = ''user'', content = str_or_none (msg_text m)\<rparr>,
              \<lparr>role = ''model'', content = response\<rparr>]"
    by (simp add: exchange_turns_def m r)
  show ?thesis
    by (simp add: t handle_ai_response_ok(1) [OF m c s g] get_chat_history_def)
qed

lemma private_session_turns:
  assumes "\<forall>ev \<in> set events. exchange_ok (fst ev) (snd ev)"
    and "length (get_chat_history user_data) \<le> 6"
  shows "get_chat_history (private_session user_data events) =
           py_last 6 (get_chat_history user_data @ session_turns user_data events)"
  using assms
proof (induction events arbitrary: user_data)
  case Nil
  then show ?case by (simp add: py_last_short)
next
  case (Cons ev events)
  obtain env update where ev: "ev = (env, update)" by (cases ev)
  let ?r = "handle_ai_response env update user_data"
  have ok: "exchange_ok env update" using Cons.prems(1) ev by simp
  have st: "get_chat_history (data ?r) =
              py_last 6 (get_chat_history user_data @ exchange_turns update ?r)"
    using exchange_step [OF ok] by blast
  then have len: "length (get_chat_history (data ?r)) \<le> 6"
    by (simp add: py_last_length)
  have "get_chat_history (private_session (data ?r) events) =
          py_last 6 (get_chat_history (data ?r) @ session_turns (data ?r) events)"
    using Cons.IH [OF _ len] Cons.prems(1) by simp
  also have "\<dots> = py_last 6 ((get_chat_history user_data @ exchange_turns update ?r)
                               @ session_turns (data ?r) events)"
    by (simp only: st py_last_append)
  finally show ?case by (simp add: ev Let_def)
qed

lemma session_turns_paired:
  assumes "\<forall>ev \<in> set events. exchange_ok (fst ev) (snd ev)"
  shows "length (session_turns user_data events) = 2 * length events
         \<and> paired (session_turns user_data events)"
  using assms
proof (induction events arbitrary: user_data)
  case Nil
  then show ?case by simp
next
  case (Cons ev events)
  obtain env update where ev: "ev = (env, update)" by (cases ev)
  let ?r = "handle_ai_response env update user_data"
  have ok: "exchange_ok env update" using Cons.prems ev by simp
  have ex: "length (exchange_turns update ?r) = 2" "paired (exchange_turns update ?r)"
    using exchange_step [OF ok] by blast+
  have rest: "length (session_turns (data ?r) events) = 2 * length events"
    "paired (session_turns (data ?r) events)"
    using Cons.IH Cons.prems by simp_all
  show ?case
    by (simp add: ev Let_def ex(1) rest(1) paired_append [OF ex(2) rest(2)])
qed

text \<open>
  C1. Take any sequence of events that \<open>handle_ai_response\<close> handles as exchanges (the
  update carries a message and a chat, the typing action goes through, nothing outside
  \<open>Exception\<close> comes out of the generation call), starting from a session with no stored
  Turn. After
  each of them, that is after the first \<open>k\<close> for every \<open>k\<close>, the stored history has
  \<open>min (2 * k) 6\<close> Turns; it is the last six of all the Turns exchanged so far, that is
  all of them but the oldest \<open>k - 3\<close> pairs; it is made of user/model pairs; and its first
  Turn, when there is one, is a user Turn.
\<close>

theorem conversation_history_window:
  assumes "get_chat_history user_data = []"
    and "\<forall>ev \<in> set events. exchange_ok (fst ev) (snd ev)"
    and "k \<le> length events"
  shows "length (get_chat_history (private_session user_data (take k events))) = min (2 * k) 6
         \<and> get_chat_history (private_session user_data (take k events)) =
             py_last 6 (session_turns user_data (take k events))
         \<and> get_chat_history (private_session user_data (take k events)) =
             drop (2 * (k - 3)) (session_turns user_data (take k events))
         \<and> length (session_turns user_data (take k events)) = 2 * k
         \<and> paired (session_turns user_data (take k events))
         \<and> paired (get_chat_history (private_session user_data (take k events)))
         \<and> (get_chat_history (private_session user_data (take k events)) \<noteq> [] \<longrightarrow>
              role (hd (get_chat_history (private_session user_data (take k events)))) = ''user'')"
proof -
  let ?evs = "take k events"
  let ?h = "get_chat_history (private_session user_data ?evs)"
  let ?ts = "session_turns user_data ?evs"
  have ok: "\<forall>ev \<in> set ?evs. exchange_ok (fst ev) (snd ev)"
    using assms(2) by (meson in_set_takeD)
  have n: "length ?evs = k" using assms(3) by simp
  have h: "?h = py_last 6 ?ts"
    using private_session_turns [OF ok, of user_data] assms(1) by simp
  have len: "length ?ts = 2 * k" and p: "paired ?ts"
    using session_turns_paired [OF ok, of user_data] n by simp_all
  have d: "?h = drop (2 * (k - 3)) ?ts"
    by (simp add: h py_last_def len diff_mult_distrib2)
  have ph: "paired ?h"
    by (simp only: d paired_drop [OF p])
  have lh: "length ?h = min (2 * k) 6"
    by (simp add: h py_last_length len)
  show ?thesis
    using lh h d len p ph paired_hd [OF ph] by blast
qed

lemma quiet_platform_try_block:
  "try_block (http_post quiet_platform) req = Inr (JStr no_response_text)"
  by (simp add: quiet_platform_def try_block_def has_candidates_def)

lemma quiet_platform_exchange_ok: "exchange_ok quiet_platform (text_update sender t)"
  by (simp add: exchange_ok_def quiet_platform_try_block)
    (simp add: quiet_platform_def text_update_def Let_def)

lemma quiet_platform_generate:
  "generate_gemini_response (http_post quiet_platform) prompt chat_history =
     Inr (JStr no_response_text)"
  by (simp add: generate_gemini_response_def quiet_platform_try_block)

lemma quiet_platform_turns:
  "exchange_turns (text_update sender t)
     (handle_ai_response quiet_platform (text_update sender t) user_data) =
   [\<lparr>role = ''user'', content = JStr t\<rparr>,
    \<lparr>role = ''model'', content = JStr no_response_text\<rparr>]"
proof -
  let ?m = "\<lparr>msg_text = Some t, from_user = Some \<lparr>first_name = sender\<rparr>, message_id = 1\<rparr>"
  have m: "message (text_update sender t) = Some ?m"
    by (simp add: text_update_def Let_def)
  have c: "effective_chat (text_update sender t) = Some 7"
    by (simp add: text_update_def Let_def)
  have s: "send_chat_action quiet_platform = None"
    by (simp add: quiet_platform_def)
  from handle_ai_response_ok(2) [OF m c s quiet_platform_generate] obtain later where
    "replies (handle_ai_response quiet_platform (text_update sender t) user_data) =
       JStr no_response_text # later" by blast
  then show ?thesis
    by (simp add: exchange_turns_def m str_or_none_def)
qed

theorem conversation_history_window_witness:
  "get_chat_history Map.empty = []
   \<and> exchange_ok quiet_platform (text_update ''Ann'' ''one'')
   \<and> exchange_ok quiet_platform (text_update ''Ann'' ''two'')
   \<and> exchange_ok quiet_platform (text_update ''Ann'' ''three'')
   \<and> exchange_ok quiet_platform (text_update ''Ann'' ''four'')
   \<and> length (get_chat_history (private_session Map.empty
         [(quiet_platform, text_update ''Ann'' ''one''),
          (quiet_platform, text_update ''Ann'' ''two''),
          (quiet_platform, text_update ''Ann'' ''three''),
          (quiet_platform, text_update ''Ann'' ''four'')])) = 6
   \<and> get_chat_history (private_session Map.empty
         [(quiet_platform, text_update ''Ann'' ''one''),
          (quiet_platform, text_update ''Ann'' ''two''),
          (quiet_platform, text_update ''Ann'' ''three''),
          (quiet_platform, text_update ''Ann'' ''four'')])
       = drop 2 (session_turns Map.empty
         [(quiet_platform, text_update ''Ann'' ''one''),
          (quiet_platform, text_update ''Ann'' ''two''),
          (quiet_platform, text_update ''Ann'' ''three''),
          (quiet_platform, text_update ''Ann'' ''four'')])
   \<and> paired (get_chat_history (private_session Map.empty
         [(quiet_platform, text_update ''Ann'' ''one''),
          (quiet_platform, text_update ''Ann'' ''two''),
          (quiet_platform, text_update ''Ann'' ''three''),
          (quiet_platform, text_update ''Ann'' ''four'')]))
   \<and> get_chat_history (private_session Map.empty
         [(quiet_platform, text_update ''Ann'' ''one''),
          (quiet_platform, text_update ''Ann'' ''two''),
          (quiet_platform, text_update ''Ann'' ''three''),
          (quiet_platform, text_update ''Ann'' ''four'')])
       = [\<lparr>role = ''user'', content = JStr ''two''\<rparr>,
          \<lparr>role = ''model'', content = JStr no_response_text\<rparr>,
          \<lparr>role = ''user'', content = JStr ''three''\<rparr>,
          \<lparr>role = ''model'', content = JStr no_response_text\<rparr>,
          \<lparr>role = ''user'', content = JStr ''four''\<rparr>,
          \<lparr>role = ''model'', content = JStr no_response_text\<rparr>]"
proof -
  have e: "get_chat_history Map.empty = []"
    by (simp add: get_chat_history_def)
  let ?events = "[(quiet_platform, text_update ''Ann'' ''one''),
                  (quiet_platform, text_update ''Ann'' ''two''),
                  (quiet_platform, text_update ''Ann'' ''three''),
                  (quiet_platform, text_update ''Ann'' ''four'')]"
  have ok: "\<forall>ev \<in> set ?events. exchange_ok (fst ev) (snd ev)"
    by (simp add: quiet_platform_exchange_ok)
  have k: "(4::nat) \<le> length ?events" by simp
  have t: "take 4 ?events = ?events" by simp
  have a: "2 * (4 - 3) = (2::nat)" "min (2 * 4) 6 = (6::nat)" by simp_all
  note w = conversation_history_window [OF e ok k, unfolded t a]
  have ts: "session_turns Map.empty ?events =
              [\<lparr>role = ''user'', content = JStr ''one''\<rparr>,
               \<lparr>role = ''model'', content = JStr no_response_text\<rparr>,
               \<lparr>role = ''user'', content = JStr ''two''\<rparr>,
               \<lparr>role = ''model'', content = JStr no_response_text\<rparr>,
               \<lparr>role = ''user'', content = JStr ''three''\<rparr>,
               \<lparr>role = ''model'', content = JStr no_response_text\<rparr>,
               \<lparr>role = ''user'', content = JStr ''four''\<rparr>,
               \<lparr>role = ''model'', content = JStr no_response_text\<rparr>]"
    by (simp add: Let_def quiet_platform_turns)
  have stored: "get_chat_history (private_session Map.empty ?events) =
              [\<lparr>role = ''user'', content = JStr ''two''\<rparr>,
               \<lparr>role = ''model'', content = JStr no_response_text\<rparr>,
               \<lparr>role = ''user'', content = JStr ''three''\<rparr>,
               \<lparr>role = ''model'', content = JStr no_response_text\<rparr>,
               \<lparr>role = ''user'', content = JStr ''four''\<rparr>,
               \<lparr>role = ''model'', content = JStr no_response_text\<rparr>]"
    by (subst w [THEN conjunct2, THEN conjunct2, THEN conjunct1]) (simp only: ts, simp)
  show ?thesis
    by (intro conjI e quiet_platform_exchange_ok
          w [THEN conjunct1]
          w [THEN conjunct2, THEN conjunct2, THEN conjunct1]
          w [THEN conjunct2, THEN conjunct2, THEN conjunct2, THEN conjunct2, THEN conjunct2,
             THEN conjunct1]
          stored)
qed

section \<open>Properties of the group chat\<close>

lemma cache_messages_text:
  assumes "group_text update = Some (u, t)"
  shows "data (cache_messages update chat_data) =
           chat_data(''recent_msgs'' \<mapsto> py_last 10 (get_recent_msgs chat_data @ [sender_line u t]))"
  using assms
  by (auto simp: group_text_def cache_messages_def get_recent_msgs_def returns_def Let_def
      split: option.splits if_splits)

lemma group_session_lines:
  assumes "\<forall>update \<in> set updates. group_text update \<noteq> None"
    and "length (get_recent_msgs chat_data) \<le> 10"
  shows "get_recent_msgs (group_session chat_data updates) =
           py_last 10 (get_recent_msgs chat_data @ map appended_line updates)"
  using assms
proof (induction updates arbitrary: chat_data)
  case Nil
  then show ?case by (simp add: py_last_short)
next
  case (Cons update updates)
  then obtain u t where g: "group_text update = Some (u, t)" by auto
  let ?cd = "data (cache_messages update chat_data)"
  have st: "get_recent_msgs ?cd = py_last 10 (get_recent_msgs chat_data @ [appended_line update])"
    by (simp add: cache_messages_text [OF g] get_recent_msgs_def appended_line_def g)
  then have len: "length (get_recent_msgs ?cd) \<le> 10"
    by (simp add: py_last_length)
  have "get_recent_msgs (group_session ?cd updates) =
          py_last 10 (get_recent_msgs ?cd @ map appended_line updates)"
    using Cons.IH [OF _ len] Cons.prems(1) by simp
  also have "\<dots> = py_last 10 ((get_recent_msgs chat_data @ [appended_line update])
                                @ map appended_line updates)"
    by (simp only: st py_last_append)
  finally show ?case by simp
qed

text \<open>
  C2. Take any sequence of \<open>N\<close> group text messages (each with a sender and a text that
  is not empty) and run \<open>cache_messages\<close> on them from a chat with no stored line. The
  stored log then has \<open>min N 10\<close> lines: the last \<open>min N 10\<close> of the appended lines, in the
  order in which they were appended, each line being the sender's first name, a colon, a
  space and the text.
\<close>

theorem group_message_log_window:
  assumes "get_recent_msgs chat_data = []"
    and "\<forall>update \<in> set updates. group_text update \<noteq> None"
  shows "length (get_recent_msgs (group_session chat_data updates)) = min (length updates) 10
         \<and> get_recent_msgs (group_session chat_data updates) =
             py_last 10 (map appended_line updates)
         \<and> get_recent_msgs (group_session chat_data updates) =
             drop (length updates - 10) (map appended_line updates)
         \<and> (\<forall>update \<in> set updates. \<exists>u t. group_text update = Some (u, t)
               \<and> appended_line update = first_name u @ '': '' @ t)"
proof -
  have h: "get_recent_msgs (group_session chat_data updates) =
             py_last 10 (map appended_line updates)"
    using group_session_lines [OF assms(2), of chat_data] assms(1) by simp
  have l: "\<forall>update \<in> set updates. \<exists>u t. group_text update = Some (u, t)
             \<and> appended_line update = first_name u @ '': '' @ t"
    using assms(2) by (auto simp: appended_line_def sender_line_def)
  show ?thesis
    using h l by (simp add: py_last_def)
qed

theorem group_message_log_window_witness:
  "get_recent_msgs Map.empty = []
   \<and> group_text (text_update ''A'' ''hi'') \<noteq> None
   \<and> group_text (text_update ''B'' ''yo'') \<noteq> None
   \<and> length (get_recent_msgs
         (group_session Map.empty [text_update ''A'' ''hi'', text_update ''B'' ''yo''])) = 2
   \<and> get_recent_msgs (group_session Map.empty [text_update ''A'' ''hi'', text_update ''B'' ''yo''])
       = [''A: hi'', ''B: yo'']"
proof -
  let ?updates = "[text_update ''A'' ''hi'', text_update ''B'' ''yo'']"
  have e: "get_recent_msgs Map.empty = []"
    by (simp add: get_recent_msgs_def)
  have g: "group_text (text_update ''A'' ''hi'') \<noteq> None"
    "group_text (text_update ''B'' ''yo'') \<noteq> None"
    by (simp_all add: group_text_def text_update_def Let_def)
  have ok: "\<forall>update \<in> set ?updates. group_text update \<noteq> None"
    using g by simp
  have l: "py_last 10 (map appended_line ?updates) = [''A: hi'', ''B: yo'']"
    by (simp add: py_last_def appended_line_def group_text_def text_update_def Let_def
          sender_line_def)
  have n: "min (length ?updates) 10 = 2" by simp
  note w = group_message_log_window [OF e ok, unfolded l n]
  show ?thesis
    by (intro conjI e g w [THEN conjunct1] w [THEN conjunct2, THEN conjunct1])
qed



lemma join_concat:
  "join sep xs = (case xs of [] \<Rightarrow> [] | x # rest \<Rightarrow> x @ concat (map (\<lambda>y. sep @ y) rest))"
  by (induction sep xs rule: join.induct) simp_all

text \<open>
  C8. For every list of buffered lines the analysis prompt is the fixed instruction text
  followed by the last ten lines of the list (all of them when there are fewer) in their
  order, the first as it is and every later one after a newline; it holds the literal
  texts \<open>Summary:\<close> and \<open>Suggestion:\<close>; the prompt does not depend on what the endpoint
  answers. \<open>analyze_conversation\<close> passes no history: the request holds the prompt as
  its only message.
\<close>

theorem analysis_prompt_contents:
  "analysis_prompt messages =
     ''You are an unbiased, emotionally intelligent AI mediator. Given these group messages, provide:\<newline>1. A short, neutral summary\<newline>2. An unbiased suggestion\<newline>Format strictly as:\<newline>Summary: <summary>\<newline>Suggestion: <suggestion>\<newline>Messages:\<newline>''
     @ (case drop (length messages - 10) messages of
          [] \<Rightarrow> []
        | x # rest \<Rightarrow> x @ concat (map (\<lambda>y. ''\<newline>'' @ y) rest))
   \<and> suffix (join ''\<newline>'' (py_last 10 messages)) (analysis_prompt messages)
   \<and> sublist (join ''\<newline>'' (py_last 10 messages)) (analysis_prompt messages)
   \<and> suffix (py_last 10 messages) messages
   \<and> length (py_last 10 messages) = min (length messages) 10
   \<and> sublist ''Summary:'' (analysis_prompt messages)
   \<and> sublist ''Suggestion:'' (analysis_prompt messages)
   \<and> analyze_conversation post messages =
       generate_gemini_response post (JStr (analysis_prompt messages)) None
   \<and> request_data (JStr (analysis_prompt messages)) None =
       JObj [(''contents'', JArr [provider_message ''user'' (JStr (analysis_prompt messages))]),
             (''generationConfig'',
                JObj [(''temperature'', JNum (7 / 10)), (''maxOutputTokens'', JNum 500)])]"
proof -
  let ?lines = "join ''\<newline>'' (py_last 10 messages)"
  let ?a = "''You are an unbiased, emotionally intelligent AI mediator. ''
     @ ''Given these group messages, provide:\<newline>''
     @ ''1. A short, neutral summary\<newline>''
     @ ''2. An unbiased suggestion\<newline>''
     @ ''Format strictly as:\<newline>''"
  let ?b = "'' <summary>\<newline>''"
  let ?c = "'' <suggestion>\<newline>'' @ ''Messages:\<newline>''"
  have s1: "analysis_prompt messages = ?a @ ''Summary:'' @ (?b @ ''Suggestion:'' @ ?c @ ?lines)"
    by (simp add: analysis_prompt_def)
  have s2: "analysis_prompt messages = (?a @ ''Summary:'' @ ?b) @ ''Suggestion:'' @ (?c @ ?lines)"
    by (simp add: analysis_prompt_def)
  have s3: "analysis_prompt messages = (?a @ ''Summary:'' @ ?b @ ''Suggestion:'' @ ?c) @ ?lines"
    by (simp add: analysis_prompt_def)
  have c1: "suffix ?lines (analysis_prompt messages)"
    by (subst s3) (rule suffixI, rule refl)
  have c2: "sublist ?lines (analysis_prompt messages)"
    using c1 by (rule suffix_imp_sublist)
  have c5: "sublist ''Summary:'' (analysis_prompt messages)"
    by (subst s1) (rule sublist_appendI)
  have c6: "sublist ''Suggestion:'' (analysis_prompt messages)"
    by (subst s2) (rule sublist_appendI)
  have c8: "request_data (JStr (analysis_prompt messages)) None =
       JObj [(''contents'', JArr [provider_message ''user'' (JStr (analysis_prompt messages))]),
             (''generationConfig'',
                JObj [(''temperature'', JNum (7 / 10)), (''maxOutputTokens'', JNum 500)])]"
    by (simp add: request_data_def provider_message_def)
  have c0: "analysis_prompt messages =
     ''You are an unbiased, emotionally intelligent AI mediator. Given these group messages, provide:\<newline>1. A short, neutral summary\<newline>2. An unbiased suggestion\<newline>Format strictly as:\<newline>Summary: <summary>\<newline>Suggestion: <suggestion>\<newline>Messages:\<newline>''
     @ (case drop (length messages - 10) messages of
          [] \<Rightarrow> []
        | x # rest \<Rightarrow> x @ concat (map (\<lambda>y. ''\<newline>'' @ y) rest))"
    by (simp add: analysis_prompt_def py_last_def
          join_concat [of "''\<newline>''" "drop (length messages - 10) messages"])
  show ?thesis
    by (intro conjI c0 c1 c2 c5 c6 c8 py_last_suffix py_last_length)
      (simp add: analyze_conversation_def)
qed

theorem analysis_prompt_contents_witness:
  "analysis_prompt [''A: hi'', ''B: yo''] =
     ''You are an unbiased, emotionally intelligent AI mediator. Given these group messages, provide:\<newline>1. A short, neutral summary\<newline>2. An unbiased suggestion\<newline>Format strictly as:\<newline>Summary: <summary>\<newline>Suggestion: <suggestion>\<newline>Messages:\<newline>A: hi\<newline>B: yo''
   \<and> analysis_prompt [''m1'', ''m2'', ''m3'', ''m4'', ''m5'', ''m6'', ''m7'', ''m8'', ''m9'',
                         ''m10'', ''m11'', ''m12''] =
     ''You are an unbiased, emotionally intelligent AI mediator. Given these group messages, provide:\<newline>1. A short, neutral summary\<newline>2. An unbiased suggestion\<newline>Format strictly as:\<newline>Summary: <summary>\<newline>Suggestion: <suggestion>\<newline>Messages:\<newline>m3\<newline>m4\<newline>m5\<newline>m6\<newline>m7\<newline>m8\<newline>m9\<newline>m10\<newline>m11\<newline>m12''"
proof -
  note a = analysis_prompt_contents [of "[''A: hi'', ''B: yo'']", THEN conjunct1]
  note b = analysis_prompt_contents
    [of "[''m1'', ''m2'', ''m3'', ''m4'', ''m5'', ''m6'', ''m7'', ''m8'', ''m9'',
          ''m10'', ''m11'', ''m12'']", THEN conjunct1]
  show ?thesis
    by (intro conjI) (subst a, simp, subst b, simp)
qed

text \<open>
  C9. \<open>chat_with_ai\<close> stores the empty list under \<open>chat_history\<close>; \<open>stop_chat\<close> removes
  the key and leaves every other key as it was, whether the key was there or not, and
  what it returns or raises does not depend on the session data. After either, the
  history that the next exchange reads is empty.
\<close>

theorem chat_and_stop_reset_history:
  "data (chat_with_ai env update user_data) = user_data(''chat_history'' \<mapsto> [])
   \<and> data (stop_chat env update user_data) = user_data(''chat_history'' := None)
   \<and> ''chat_history'' \<notin> dom (data (stop_chat env update user_data))
   \<and> get_chat_history (data (chat_with_ai env update user_data)) = []
   \<and> get_chat_history (data (stop_chat env update user_data)) = []
   \<and> outcome (stop_chat env update user_data) =
       (case message update of
          None \<Rightarrow> Inl AttributeError
        | Some m \<Rightarrow> (case reply_text env (JStr chat_ended_text) of
                       Some e \<Rightarrow> Inl e
                     | None \<Rightarrow> Inr (Some END)))"
proof -
  have c: "data (chat_with_ai env update user_data) = user_data(''chat_history'' \<mapsto> [])"
    by (simp add: chat_with_ai_def Let_def raises_def data_reply_and_return
        split: option.splits)
  have s: "data (stop_chat env update user_data) = user_data(''chat_history'' := None)"
    by (auto simp: stop_chat_def Let_def raises_def data_reply_and_return
        split: option.splits)
  have o: "outcome (stop_chat env update user_data) =
       (case message update of
          None \<Rightarrow> Inl AttributeError
        | Some m \<Rightarrow> (case reply_text env (JStr chat_ended_text) of
                       Some e \<Rightarrow> Inl e
                     | None \<Rightarrow> Inr (Some END)))"
    by (simp add: stop_chat_def Let_def raises_def outcome_reply_and_return
        split: option.splits)
  show ?thesis
    by (intro conjI c s o) (simp_all add: c s get_chat_history_def)
qed





end
